theory Spec2Isabelle
  imports Complex_Main
begin

section \<open>Values shared by the RTK movement sensor\<close>

text \<open>
  A Go \<open>float64\<close> as far as the facade looks at it: the facade moves such values, compares a
  coordinate with zero and asks whether it is NaN; it never computes with them. \<open>NaN\<close> stands
  for any NaN payload, so HOL equality with \<open>NaN\<close> reads \<open>math.IsNaN\<close> (Go's own \<open>==\<close> on
  NaN is false and is never used below).
\<close>

datatype float64 = NaN | PosInf | NegInf | Fin real

definition IsNaN :: "float64 \<Rightarrow> bool" where
  "IsNaN f = (f = NaN)"

text \<open>\<open>geo.Point\<close>: latitude and longitude. A \<open>*geo.Point\<close> is a \<open>Point option\<close>, nil being \<open>None\<close>.\<close>

record Point =
  lat :: float64
  lng :: float64

definition NewPoint :: "float64 \<Rightarrow> float64 \<Rightarrow> Point" where
  "NewPoint la lo = \<lparr> lat = la, lng = lo \<rparr>"

text \<open>
  Go errors. \<open>ContextCanceled\<close> and \<open>EOF\<close> are the sentinels \<open>context.Canceled\<close> and
  \<open>io.EOF\<close>, \<open>ErrorString\<close> is what \<open>errors.New\<close> builds, \<open>Wrapped\<close> an error that wraps
  another one (\<open>fmt.Errorf\<close> with \<open>%w\<close>), carrying its whole message.
\<close>

datatype error = ContextCanceled | EOF | ErrorString string | Wrapped string error

fun Error :: "error \<Rightarrow> string" where
  "Error ContextCanceled = ''context canceled''"
| "Error EOF = ''EOF''"
| "Error (ErrorString s) = s"
| "Error (Wrapped s e) = s"

text \<open>\<open>errors.Is(err, context.Canceled)\<close>: the sentinel is looked for along the chain of wrapped errors.\<close>

fun errors_Is_Canceled :: "error \<Rightarrow> bool" where
  "errors_Is_Canceled ContextCanceled = True"
| "errors_Is_Canceled EOF = False"
| "errors_Is_Canceled (ErrorString s) = False"
| "errors_Is_Canceled (Wrapped s e) = errors_Is_Canceled e"

text \<open>A panic of the Go runtime: the only one the modelled code can raise is a nil dereference.\<close>

datatype panic = NilPointerDereference

text \<open>\<open>strings.HasPrefix\<close> and \<open>strings.Contains\<close> on byte strings.\<close>

definition HasPrefix :: "string \<Rightarrow> string \<Rightarrow> bool" where
  "HasPrefix s p = (take (length p) s = p)"

fun Contains :: "string \<Rightarrow> string \<Rightarrow> bool" where
  "Contains [] sub = (sub = [])"
| "Contains (c # s) sub = (HasPrefix (c # s) sub \<or> Contains s sub)"

subsection \<open>LastError and LastPosition\<close>

text \<open>
  Modelled from the spec: \<open>movementsensor.LastError\<close> belongs to the package movementsensor,
  whose source is missing. The spec describes a sticky most-recent-error slot that keeps the single latest error
  (it is built with \<open>NewLastError(1, 1)\<close>): \<open>Set\<close> overwrites the slot, \<open>Get\<close> reads it and
  leaves it in place.
\<close>

type_synonym LastError = "error option"

definition NewLastError :: LastError where
  "NewLastError = None"

definition LastError_Set :: "LastError \<Rightarrow> error option \<Rightarrow> LastError" where
  "LastError_Set le e = e"

definition LastError_Get :: "LastError \<Rightarrow> error option" where
  "LastError_Get le = le"

text \<open>
  Modelled from the spec: \<open>movementsensor.LastPosition\<close> and its methods belong to the package
  movementsensor, whose source is missing. The spec describes a single optional point: \<open>set\<close> overwrites it, \<open>get\<close> returns the
  stored point or nothing; \<open>isZero\<close> holds of the point (0, 0) and \<open>isNaN\<close> of a point with NaN
  in either coordinate.
\<close>

type_synonym LastPosition = "Point option"

definition NewLastPosition :: LastPosition where
  "NewLastPosition = None"

definition SetLastPosition :: "LastPosition \<Rightarrow> Point option \<Rightarrow> LastPosition" where
  "SetLastPosition lp p = p"

definition GetLastPosition :: "LastPosition \<Rightarrow> Point option" where
  "GetLastPosition lp = lp"

definition IsZeroPosition :: "Point \<Rightarrow> bool" where
  "IsZeroPosition p = (lng p = Fin 0 \<and> lat p = Fin 0)"

definition IsPositionNaN :: "Point \<Rightarrow> bool" where
  "IsPositionNaN p = (IsNaN (lng p) \<or> IsNaN (lat p))"

subsection \<open>The underlying NMEA movement sensor\<close>

text \<open>
  \<open>r3.Vector\<close> and \<open>spatialmath.AngularVelocity\<close> are structs of three floats.
  \<open>spatialmath.Orientation\<close> is an interface and \<open>movementsensor.Properties\<close> a struct of flags,
  both declared in other packages: the facade only passes their values through
  and builds the zero orientation and the zero struct, so an orientation is the zero one or
  another value, and a properties struct maps the name of a flag to its value.
\<close>

record Vector =
  X :: float64
  Y :: float64
  Z :: float64

definition zeroVector :: Vector where
  "zeroVector = \<lparr> X = Fin 0, Y = Fin 0, Z = Fin 0 \<rparr>"

datatype AngularVelocity = MkAngularVelocity float64 float64 float64

definition zeroAngularVelocity :: AngularVelocity where
  "zeroAngularVelocity = MkAngularVelocity (Fin 0) (Fin 0) (Fin 0)"

datatype Orientation = ZeroOrientation | OrientationValue nat

definition NewZeroOrientation :: Orientation where
  "NewZeroOrientation = ZeroOrientation"

type_synonym Properties = "string \<Rightarrow> bool"

definition zeroProperties :: Properties where
  "zeroProperties = (\<lambda>_. False)"

text \<open>
  The sensor is an external collaborator reached through the interface
  \<open>gpsnmea.NmeaMovementSensor\<close>. It is modelled by what each of its methods returns when it is
  called, and by a counter of the calls that reached it, so that a facade method that answers
  without delegating leaves the counter alone.
\<close>

record NmeaMovementSensor =
  sensorPosition :: "Point option \<times> float64 \<times> error option"
  sensorLinearVelocity :: "Vector \<times> error option"
  sensorAngularVelocity :: "AngularVelocity \<times> error option"
  sensorCompassHeading :: "float64 \<times> error option"
  sensorOrientation :: "Orientation \<times> error option"
  sensorProperties :: "Properties option \<times> error option"
  sensorAccuracy :: "(string \<rightharpoonup> float64) \<times> error option"
  sensorClose :: "error option"
  delegated :: nat

definition call :: "(NmeaMovementSensor \<Rightarrow> 'a) \<Rightarrow> NmeaMovementSensor \<Rightarrow> 'a \<times> NmeaMovementSensor" where
  "call method s = (method s, s\<lparr> delegated := Suc (delegated s) \<rparr>)"

section \<open>The I2C receiver \<open>rtkI2C\<close>\<close>

text \<open>
  \<open>rtk.NtripInfo\<close>: the caster's address and credentials, the client and the open stream. The
  struct is declared in the package rtkutils; these are the fields that the receiver
  reads and writes. Clients, streams and writers are named by numbers; a nil pointer is \<open>None\<close>.
\<close>

record NtripInfo =
  URL :: string
  Username :: string
  Password :: string
  MountPoint :: string
  MaxConnectAttempts :: int
  Client :: "nat option"
  Stream :: "nat option"

text \<open>
  The fields of \<open>rtkI2C\<close> that the modelled methods read or write. \<open>cancelCtx\<close> is true once
  the context is cancelled; \<open>activeBackgroundWorkers\<close> is the counter of the wait group.
\<close>

record rtkI2C =
  cancelCtx :: bool
  activeBackgroundWorkers :: nat
  ntripClient :: "NtripInfo option"
  ntripStatus :: bool
  err :: LastError
  lastposition :: LastPosition
  nmeamovementsensor :: NmeaMovementSensor
  correctionWriter :: "nat option"

subsection \<open>The facade's read operations\<close>

definition delegate :: "(NmeaMovementSensor \<Rightarrow> 'a) \<Rightarrow> rtkI2C \<Rightarrow> 'a \<times> rtkI2C" where
  "delegate method g =
     (case call method (nmeamovementsensor g) of
        (r, s) \<Rightarrow> (r, g\<lparr> nmeamovementsensor := s \<rparr>))"

text \<open>
  \<open>Position\<close>. The predicates on a point read its coordinates, so when the sensor returns a
  nil point with no error the call of \<open>IsPositionNaN\<close> dereferences nil and \<open>Position\<close> panics.
  \<open>nanPosition e\<close> is the answer \<open>geo.NewPoint(NaN, NaN), NaN, e\<close>.
\<close>

definition nanPosition :: "error \<Rightarrow> Point option \<times> float64 \<times> error option" where
  "nanPosition e = (Some (NewPoint NaN NaN), NaN, Some e)"

definition Position :: "rtkI2C \<Rightarrow> (panic + Point option \<times> float64 \<times> error option) \<times> rtkI2C" where
  "Position g =
     (case LastError_Get (err g) of
        Some lastError \<Rightarrow>
          (case GetLastPosition (lastposition g) of
             Some lastPosition \<Rightarrow> (Inr (Some lastPosition, Fin 0, None), g)
           | None \<Rightarrow> (Inr (nanPosition lastError), g))
      | None \<Rightarrow>
          (case delegate sensorPosition g of
             ((position, alt, Some e), g') \<Rightarrow>
               (case position of
                  Some p \<Rightarrow>
                    if IsZeroPosition p \<or> IsPositionNaN p then
                      (case GetLastPosition (lastposition g') of
                         Some lastPosition \<Rightarrow> (Inr (Some lastPosition, alt, None), g')
                       | None \<Rightarrow> (Inr (nanPosition e), g'))
                    else (Inr (nanPosition e), g')
                | None \<Rightarrow> (Inr (nanPosition e), g'))
           | ((position, alt, None), g') \<Rightarrow>
               (case position of
                  None \<Rightarrow> (Inl NilPointerDereference, g')
                | Some p \<Rightarrow>
                    if IsPositionNaN p
                    then (Inr (GetLastPosition (lastposition g'), alt, None), g')
                    else (Inr (Some p, alt, None), g'))))"

definition LinearVelocity :: "rtkI2C \<Rightarrow> (Vector \<times> error option) \<times> rtkI2C" where
  "LinearVelocity g =
     (case LastError_Get (err g) of
        Some lastError \<Rightarrow> ((zeroVector, Some lastError), g)
      | None \<Rightarrow> delegate sensorLinearVelocity g)"

definition AngularVelocity :: "rtkI2C \<Rightarrow> (AngularVelocity \<times> error option) \<times> rtkI2C" where
  "AngularVelocity g =
     (case LastError_Get (err g) of
        Some lastError \<Rightarrow> ((zeroAngularVelocity, Some lastError), g)
      | None \<Rightarrow> delegate sensorAngularVelocity g)"

definition CompassHeading :: "rtkI2C \<Rightarrow> (float64 \<times> error option) \<times> rtkI2C" where
  "CompassHeading g =
     (case LastError_Get (err g) of
        Some lastError \<Rightarrow> ((Fin 0, Some lastError), g)
      | None \<Rightarrow> delegate sensorCompassHeading g)"

definition Orientation :: "rtkI2C \<Rightarrow> (Orientation \<times> error option) \<times> rtkI2C" where
  "Orientation g =
     (case LastError_Get (err g) of
        Some lastError \<Rightarrow> ((NewZeroOrientation, Some lastError), g)
      | None \<Rightarrow> delegate sensorOrientation g)"

definition Properties :: "rtkI2C \<Rightarrow> (Properties option \<times> error option) \<times> rtkI2C" where
  "Properties g =
     (case LastError_Get (err g) of
        Some lastError \<Rightarrow> ((Some zeroProperties, Some lastError), g)
      | None \<Rightarrow> delegate sensorProperties g)"

definition Accuracy :: "rtkI2C \<Rightarrow> ((string \<rightharpoonup> float64) \<times> error option) \<times> rtkI2C" where
  "Accuracy g =
     (case LastError_Get (err g) of
        Some lastError \<Rightarrow> ((Map.empty, Some lastError), g)
      | None \<Rightarrow> delegate sensorAccuracy g)"

subsection \<open>Connecting to the caster\<close>

text \<open>\<open>%d\<close> of \<open>fmt.Sprintf\<close>: the decimal digits of an integer.\<close>

fun digits :: "nat \<Rightarrow> string" where
  "digits n = (if n < 10 then [''0123456789'' ! n] else digits (n div 10) @ [''0123456789'' ! (n mod 10)])"

declare digits.simps [simp del]

definition Itoa :: "int \<Rightarrow> string" where
  "Itoa i = (if i < 0 then CHR ''-'' # digits (nat (- i)) else digits (nat i))"

text \<open>
  \<open>ntrip.NewClient\<close> belongs to the NTRIP library: the result of each call is a parameter,
  a function of the arguments and of the number of the attempt, \<open>Inr\<close> the new client.
\<close>

type_synonym NewClient = "string \<Rightarrow> string \<Rightarrow> string \<Rightarrow> int \<Rightarrow> error + nat"

function connect_attempts :: "(int \<Rightarrow> error + nat) \<Rightarrow> int \<Rightarrow> int \<Rightarrow> nat option" where
  "connect_attempts newClient maxAttempts attempts =
     (if attempts < maxAttempts then
        (case newClient attempts of
           Inr ntripclient \<Rightarrow> Some ntripclient
         | Inl e \<Rightarrow> connect_attempts newClient maxAttempts (attempts + 1))
      else None)"
  by pat_completeness auto
termination
  by (relation "measure (\<lambda>(newClient, maxAttempts, attempts). nat (maxAttempts - attempts))") auto

declare connect_attempts.simps [simp del]

definition connect :: "NewClient \<Rightarrow> rtkI2C \<Rightarrow> string \<Rightarrow> string \<Rightarrow> string \<Rightarrow> int \<Rightarrow> (panic + error option) \<times> rtkI2C" where
  "connect NewClient g casterAddr user pwd maxAttempts =
     (case connect_attempts (NewClient casterAddr user pwd) maxAttempts 0 of
        Some ntripclient \<Rightarrow>
          (case ntripClient g of
             None \<Rightarrow> (Inl NilPointerDereference, g)
           | Some info \<Rightarrow>
               (Inr (LastError_Get (err g)),
                g\<lparr> ntripClient := Some (info\<lparr> Client := Some ntripclient \<rparr>) \<rparr>))
      | None \<Rightarrow>
          (Inr (Some (ErrorString
             (''Can't connect to NTRIP caster after '' @ Itoa maxAttempts @ '' attempts''))), g))"

text \<open>
  \<open>getStream\<close>. The caster's answers are parameters: \<open>done k\<close> says whether the cancellation
  is seen at the check of attempt \<open>k\<close> (the context is cancelled by another task), and
  \<open>GetStream client mountPoint k\<close> is what the client's \<open>GetStream\<close> returns at attempt \<open>k\<close>,
  the stream and the error. The loop gives \<open>None\<close> when it returns "Canceled", and the last
  stream and error otherwise. The call \<open>g.ntripClient.Client.GetStream\<close> dereferences the
  client: with a nil client the first attempt that is not cancelled panics, and when there
  is no attempt at all the nil stream is assigned.
\<close>

type_synonym GetStream = "nat \<Rightarrow> string \<Rightarrow> int \<Rightarrow> nat option \<times> error option"

function getStream_attempts ::
  "(int \<Rightarrow> bool) \<Rightarrow> (int \<Rightarrow> nat option \<times> error option) \<Rightarrow> int \<Rightarrow> bool \<Rightarrow> int \<Rightarrow>
     nat option \<times> error option \<Rightarrow> (nat option \<times> error option) option" where
  "getStream_attempts done getS maxAttempts success attempts rcerr =
     (if \<not> success \<and> attempts < maxAttempts then
        if done attempts then None
        else getStream_attempts done getS maxAttempts
               (snd (getS attempts) = None) (attempts + 1) (getS attempts)
      else Some rcerr)"
  by pat_completeness auto
termination
  by (relation "measure (\<lambda>(done, getS, maxAttempts, success, attempts, rcerr). nat (maxAttempts - attempts))") auto

declare getStream_attempts.simps [simp del]

definition Canceled :: error where
  "Canceled = ErrorString ''Canceled''"

definition getStream ::
  "(int \<Rightarrow> bool) \<Rightarrow> GetStream \<Rightarrow> rtkI2C \<Rightarrow> string \<Rightarrow> int \<Rightarrow> (panic + error option) \<times> rtkI2C" where
  "getStream done GetStream g mountPoint maxAttempts =
     (case ntripClient g of
        None \<Rightarrow>
          if 0 < maxAttempts \<and> (cancelCtx g \<or> done 0) then (Inr (Some Canceled), g)
          else (Inl NilPointerDereference, g)
      | Some info \<Rightarrow>
          (case Client info of
             None \<Rightarrow>
               if 0 < maxAttempts then
                 if cancelCtx g \<or> done 0 then (Inr (Some Canceled), g)
                 else (Inl NilPointerDereference, g)
               else (Inr (LastError_Get (err g)), g\<lparr> ntripClient := Some (info\<lparr> Stream := None \<rparr>) \<rparr>)
           | Some client \<Rightarrow>
               (case getStream_attempts (\<lambda>k. cancelCtx g \<or> done k)
                       (GetStream client mountPoint) maxAttempts False 0 (None, None) of
                  None \<Rightarrow> (Inr (Some Canceled), g)
                | Some (rc, Some e) \<Rightarrow>
                    if Contains (Error e) ''ICY''
                    then (Inr (LastError_Get (err g)), g\<lparr> ntripClient := Some (info\<lparr> Stream := rc \<rparr>) \<rparr>)
                    else (Inr (Some e), g)
                | Some (rc, None) \<Rightarrow>
                    (Inr (LastError_Get (err g)), g\<lparr> ntripClient := Some (info\<lparr> Stream := rc \<rparr>) \<rparr>))))"

subsection \<open>The relay cycle of \<open>receiveAndWriteI2C\<close>\<close>










subsection \<open>Close\<close>

text \<open>
  What the collaborators answer while the receiver is closed: the errors of closing the
  correction writer and the stream, and what the relay task, which runs beside \<open>Close\<close>, stores
  in \<open>LastError\<close> before it exits (\<open>None\<close> when it stores nothing more, \<open>Some x\<close> when its last
  \<open>Set\<close> stores \<open>x\<close>). \<open>Wait\<close> returns at once when no worker is active, and otherwise when
  the relay task has exited.
\<close>

record closing =
  writerClose :: "error option"
  streamClose :: "error option"
  relayLastSet :: "error option option"

definition Wait :: "closing \<Rightarrow> rtkI2C \<Rightarrow> rtkI2C" where
  "Wait c g =
     (if activeBackgroundWorkers g = 0 then g
      else g\<lparr> activeBackgroundWorkers := 0,
              err := (case relayLastSet c of None \<Rightarrow> err g | Some x \<Rightarrow> LastError_Set (err g) x) \<rparr>)"

definition Close :: "closing \<Rightarrow> rtkI2C \<Rightarrow> (panic + error option) \<times> rtkI2C" where
  "Close c g =
     (case delegate sensorClose (g\<lparr> cancelCtx := True \<rparr>) of
        (Some e, g1) \<Rightarrow> (Inr (Some e), g1)
      | (None, g1) \<Rightarrow>
          (case (case correctionWriter g1 of Some w \<Rightarrow> writerClose c | None \<Rightarrow> None) of
             Some e \<Rightarrow> (Inr (Some e), g1)
           | None \<Rightarrow>
               (let g2 = g1\<lparr> correctionWriter := None \<rparr> in
                case ntripClient g2 of
                  None \<Rightarrow> (Inl NilPointerDereference, g2)
                | Some info \<Rightarrow>
                    (let g3 = g2\<lparr> ntripClient := Some (info\<lparr> Client := None \<rparr>) \<rparr> in
                     case (case Stream info of Some s \<Rightarrow> streamClose c | None \<Rightarrow> None) of
                       Some e \<Rightarrow> (Inr (Some e), g3)
                     | None \<Rightarrow>
                         (let g4 = Wait c (g3\<lparr> ntripClient := Some (info\<lparr> Client := None, Stream := None \<rparr>) \<rparr>) in
                          case LastError_Get (err g4) of
                            Some e \<Rightarrow>
                              if \<not> errors_Is_Canceled e then (Inr (Some e), g4) else (Inr None, g4)
                          | None \<Rightarrow> (Inr None, g4))))))"

section \<open>The virtual-base session of \<open>rtkSerial\<close>\<close>

text \<open>
  \<open>bufio.ReadWriter\<close> is a struct of a reader and a writer, each a pointer. \<open>received\<close> is the
  list of the lines that \<open>ReadLine\<close> has returned from the reader so far.
\<close>

record ReadWriter =
  Reader :: "nat option"
  Writer :: "nat option"
  received :: "string list"

text \<open>
  The fields of \<open>rtkSerial\<close> that \<open>sendGGAMessage\<close>, \<open>connectToVirtualBase\<close> and \<open>getGGAMessage\<close>
  read or write; the struct itself is declared in the package gpsrtkserial. \<open>urlMutex\<close>
  is true while the mutex is held. The text of the HTTP request is not modelled.
\<close>

record rtkSerial =
  isConnected :: bool
  rw :: "ReadWriter option"
  urlMutex :: bool
  correctionWriter_serial :: "nat option"

text \<open>
  What the network answers during one call of \<open>sendGGAMessage\<close>: the result of \<open>net.Dial\<close>
  (\<open>Inr\<close> the connection), the errors of writing and flushing the request, the successive
  results of \<open>ReadLine\<close> and of \<open>correctionWriter.Read\<close> (\<open>Inr\<close> the bytes), and the errors of
  writing and flushing the GGA sentence.
\<close>

record vrs =
  dial :: "error + nat"
  headersWrite :: "error option"
  headersFlush :: "error option"
  lines :: "(error + string) list"
  corrections :: "(error + string) list"
  ggaWrite :: "error option"
  ggaFlush :: "error option"

text \<open>
  A call returns, panics, or blocks for ever: on a mutex that is held, or on a read when the
  network has nothing more to give.
\<close>

datatype 'a outcome = Returns 'a | Panics panic | Blocks

definition connectToVirtualBase :: "vrs \<Rightarrow> rtkSerial \<Rightarrow> ReadWriter option outcome \<times> rtkSerial" where
  "connectToVirtualBase c g =
     (if urlMutex g then (Blocks, g)
      else
        (case dial c of
           Inl e \<Rightarrow> (Returns None, g\<lparr> urlMutex := True, isConnected := False \<rparr>)
         | Inr conn \<Rightarrow>
             (case headersWrite c of
                Some e \<Rightarrow> (Returns None, g\<lparr> urlMutex := True, isConnected := False \<rparr>)
              | None \<Rightarrow>
                  (case headersFlush c of
                     Some e \<Rightarrow> (Returns None, g\<lparr> urlMutex := True, isConnected := False \<rparr>)
                   | None \<Rightarrow>
                       (Returns (Some \<lparr> Reader = Some conn, Writer = Some conn, received = [] \<rparr>),
                        g\<lparr> urlMutex := False, isConnected := True \<rparr>)))))"

definition containsGGAMessage :: "string \<Rightarrow> bool" where
  "containsGGAMessage data = Contains data ''GGA''"

fun getGGAMessage_reads :: "(error + string) list \<Rightarrow> string \<Rightarrow> (error + string) outcome" where
  "getGGAMessage_reads [] buffer = Blocks"
| "getGGAMessage_reads (Inl e # rest) buffer = Returns (Inl e)"
| "getGGAMessage_reads (Inr bytes # rest) buffer =
     (let buffer' = buffer @ take (1024 - length buffer) bytes in
      if containsGGAMessage buffer' then Returns (Inr buffer')
      else if 1024 \<le> length buffer'
      then Returns (Inl (ErrorString ''GGA message not found in the received data''))
      else getGGAMessage_reads rest buffer')"

definition getGGAMessage :: "vrs \<Rightarrow> rtkSerial \<Rightarrow> (error + string) outcome" where
  "getGGAMessage c g =
     (case correctionWriter_serial g of
        None \<Rightarrow> Panics NilPointerDereference
      | Some w \<Rightarrow> getGGAMessage_reads (corrections c) [])"

text \<open>
  The loop of \<open>sendGGAMessage\<close> that waits for the status line. \<open>Returns (Some r)\<close>: the
  function returns \<open>r\<close> from inside the loop; \<open>Returns None\<close>: the loop is left by \<open>break\<close>.
\<close>

fun awaitStatus :: "(error + string) list \<Rightarrow> rtkSerial \<Rightarrow>
    (ReadWriter option \<times> error option) option outcome \<times> rtkSerial" where
  "awaitStatus [] g =
     (case rw g of
        None \<Rightarrow> (Panics NilPointerDereference, g)
      | Some b \<Rightarrow> if Reader b = None \<or> Writer b = None then (Returns None, g) else (Blocks, g))"
| "awaitStatus (Inl e # rest) g =
     (case rw g of
        None \<Rightarrow> (Panics NilPointerDereference, g)
      | Some b \<Rightarrow>
          if Reader b = None \<or> Writer b = None then (Returns None, g)
          else if e = EOF
          then (Returns (Some (None, Some e)), g\<lparr> rw := None, isConnected := False \<rparr>)
          else (Returns (Some (None, Some e)), g))"
| "awaitStatus (Inr line # rest) g =
     (case rw g of
        None \<Rightarrow> (Panics NilPointerDereference, g)
      | Some b \<Rightarrow>
          if Reader b = None \<or> Writer b = None then (Returns None, g)
          else
            (let g1 = g\<lparr> rw := Some (b\<lparr> received := received b @ [line] \<rparr>) \<rparr> in
             if HasPrefix line ''HTTP/1.1 '' then
               if Contains line ''200 OK'' then (Returns None, g1\<lparr> isConnected := True \<rparr>)
               else (Returns (Some (None, None)), g1\<lparr> isConnected := False \<rparr>)
             else awaitStatus rest g1))"

definition writeGGA :: "vrs \<Rightarrow> rtkSerial \<Rightarrow> (ReadWriter option \<times> error option) outcome \<times> rtkSerial" where
  "writeGGA c g =
     (case getGGAMessage c g of
        Panics p \<Rightarrow> (Panics p, g)
      | Blocks \<Rightarrow> (Blocks, g)
      | Returns (Inl e) \<Rightarrow> (Returns (None, Some e), g)
      | Returns (Inr ggaMessage) \<Rightarrow>
          (case rw g of
             None \<Rightarrow> (Panics NilPointerDereference, g)
           | Some b \<Rightarrow>
               if Writer b = None then (Panics NilPointerDereference, g)
               else
                 (case ggaWrite c of
                    Some e \<Rightarrow> (Returns (None, Some e), g)
                  | None \<Rightarrow>
                      (case ggaFlush c of
                         Some e \<Rightarrow> (Returns (None, Some e), g)
                       | None \<Rightarrow> (Returns (rw g, None), g)))))"

definition sendGGAMessage :: "vrs \<Rightarrow> rtkSerial \<Rightarrow> (ReadWriter option \<times> error option) outcome \<times> rtkSerial" where
  "sendGGAMessage c g =
     (case (if \<not> isConnected g
            then (case connectToVirtualBase c g of
                    (Returns r, g') \<Rightarrow> (Returns (), g'\<lparr> rw := r \<rparr>)
                  | (Panics p, g') \<Rightarrow> (Panics p, g')
                  | (Blocks, g') \<Rightarrow> (Blocks, g'))
            else (Returns (), g)) of
        (Panics p, g1) \<Rightarrow> (Panics p, g1)
      | (Blocks, g1) \<Rightarrow> (Blocks, g1)
      | (Returns u, g1) \<Rightarrow>
          (case awaitStatus (lines c) g1 of
             (Panics p, g2) \<Rightarrow> (Panics p, g2)
           | (Blocks, g2) \<Rightarrow> (Blocks, g2)
           | (Returns (Some r), g2) \<Rightarrow> (Returns r, g2)
           | (Returns None, g2) \<Rightarrow> writeGGA c g2))"

section \<open>Example states and the predicates of the properties\<close>

text \<open>
  The states of the unit test \<open>TestReadings\<close>: the fix (40.7, -73.98) at altitude 50.5, a sensor
  that moves at 5.4 along Y, and a receiver with no latched error and an empty position cache.
\<close>

definition loc1 :: Point where
  "loc1 = NewPoint (Fin (407 / 10)) (Fin (- (7398 / 100)))"

definition speed :: Vector where
  "speed = \<lparr> X = Fin 0, Y = Fin (54 / 10), Z = Fin 0 \<rparr>"

definition testSensor :: NmeaMovementSensor where
  "testSensor =
     \<lparr> sensorPosition = (Some loc1, Fin (505 / 10), None),
       sensorLinearVelocity = (speed, None),
       sensorAngularVelocity = (zeroAngularVelocity, None),
       sensorCompassHeading = (Fin 25, None),
       sensorOrientation = (OrientationValue 1, None),
       sensorProperties = (Some zeroProperties, None),
       sensorAccuracy = (Map.empty, None),
       sensorClose = None,
       delegated = 0 \<rparr>"

definition testInfo :: NtripInfo where
  "testInfo =
     \<lparr> URL = ''http://fakeurl'', Username = ''user'', Password = ''pwd'', MountPoint = ''NYC'',
       MaxConnectAttempts = 10, Client = None, Stream = None \<rparr>"

definition testRTK :: rtkI2C where
  "testRTK =
     \<lparr> cancelCtx = False, activeBackgroundWorkers = 1, ntripClient = Some testInfo,
       ntripStatus = True, err = NewLastError, lastposition = NewLastPosition,
       nmeamovementsensor = testSensor, correctionWriter = None \<rparr>"

text \<open>The receiver once the relay task has built the client and opened the stream.\<close>

definition connectedInfo :: NtripInfo where
  "connectedInfo = testInfo\<lparr> Client := Some 7, Stream := Some 1 \<rparr>"

definition connectedRTK :: rtkI2C where
  "connectedRTK = testRTK\<lparr> ntripClient := Some connectedInfo \<rparr>"

text \<open>The sensor reports the zero point, or a NaN point, with or without an error of its own.\<close>

definition zeroSensor :: NmeaMovementSensor where
  "zeroSensor = testSensor\<lparr> sensorPosition := (Some (NewPoint (Fin 0) (Fin 0)), Fin 0, None) \<rparr>"

definition nanSensor :: NmeaMovementSensor where
  "nanSensor = testSensor\<lparr> sensorPosition := (Some (NewPoint NaN NaN), NaN, None) \<rparr>"

definition noFix :: error where
  "noFix = ErrorString ''no fix''"

definition failingSensor :: NmeaMovementSensor where
  "failingSensor = testSensor\<lparr> sensorPosition := (Some (NewPoint NaN (Fin 3)), Fin 12, Some noFix) \<rparr>"

text \<open>The receiver with that fix in its position cache.\<close>

definition cachedRTK :: "NmeaMovementSensor \<Rightarrow> rtkI2C" where
  "cachedRTK s = testRTK\<lparr> lastposition := SetLastPosition (lastposition testRTK) (Some loc1),
                         nmeamovementsensor := s \<rparr>"

text \<open>The receiver, with that fix in its cache, after the relay task has latched an error.\<close>

definition casterDown :: error where
  "casterDown = ErrorString ''Can't connect to NTRIP caster after 10 attempts''"

definition latchedRTK :: rtkI2C where
  "latchedRTK = (cachedRTK testSensor)\<lparr> err := LastError_Set (err testRTK) (Some casterDown) \<rparr>"

text \<open>
  A caster whose client is built at the third attempt only, and a caster that answers every
  request for the stream with the legacy handshake.
\<close>

definition flakyCaster :: NewClient where
  "flakyCaster casterAddr user pwd k = (if k = 2 then Inr 7 else Inl (ErrorString ''dial failed''))"

definition icy :: error where
  "icy = ErrorString ''malformed HTTP version ICY''"

definition icyCaster :: GetStream where
  "icyCaster client mountPoint k = (None, Some icy)"

definition neverDone :: "int \<Rightarrow> bool" where
  "neverDone k = False"







text \<open>
  The content of the \<open>LastError\<close> slot once the relay task has exited: the relay task's
  terminal error.
\<close>

definition terminal :: "closing \<Rightarrow> rtkI2C \<Rightarrow> LastError" where
  "terminal c g =
     (if activeBackgroundWorkers g = 0 then err g
      else (case relayLastSet c of None \<Rightarrow> err g | Some x \<Rightarrow> LastError_Set (err g) x))"

text \<open>
  Closing while the relay task runs: the task ends on the cancellation, or on a failure to
  reach the caster; and a receiver whose sensor fails to close.
\<close>

definition closeFailed :: error where
  "closeFailed = ErrorString ''sensor close failed''"

definition shutdown :: closing where
  "shutdown = \<lparr> writerClose = None, streamClose = None, relayLastSet = Some (Some ContextCanceled) \<rparr>"

definition outage :: closing where
  "outage = \<lparr> writerClose = None, streamClose = None, relayLastSet = Some (Some casterDown) \<rparr>"

definition stuckRTK :: rtkI2C where
  "stuckRTK = testRTK\<lparr> nmeamovementsensor := testSensor\<lparr> sensorClose := Some closeFailed \<rparr> \<rparr>"

text \<open>
  A status line with "200 OK" has been read on the session's connection; the session's
  reader and writer are both set.
\<close>

definition handshakeObserved :: "rtkSerial \<Rightarrow> bool" where
  "handshakeObserved g =
     (case rw g of
        None \<Rightarrow> False
      | Some b \<Rightarrow> list_ex (\<lambda>line. HasPrefix line ''HTTP/1.1 '' \<and> Contains line ''200 OK'') (received b))"

definition readerWriterSet :: "rtkSerial \<Rightarrow> bool" where
  "readerWriterSet g = (case rw g of None \<Rightarrow> False | Some b \<Rightarrow> Reader b \<noteq> None \<and> Writer b \<noteq> None)"

text \<open>The session after a series of calls of \<open>sendGGAMessage\<close>, one per element of the list.\<close>

fun sessions :: "vrs list \<Rightarrow> rtkSerial \<Rightarrow> rtkSerial" where
  "sessions [] g = g"
| "sessions (c # cs) g = sessions cs (snd (sendGGAMessage c g))"

text \<open>
  A new receiver, a caster that accepts the request, and a caster whose answer does not come.
\<close>

definition newSerial :: rtkSerial where
  "newSerial = \<lparr> isConnected = False, rw = None, urlMutex = False, correctionWriter_serial = Some 1 \<rparr>"

definition accepted :: vrs where
  "accepted = \<lparr> dial = Inr 3, headersWrite = None, headersFlush = None,
                lines = [Inr ''HTTP/1.1 200 OK''], corrections = [Inr ''$GPGGA,1''],
                ggaWrite = None, ggaFlush = None \<rparr>"

definition timedOut :: vrs where
  "timedOut = accepted\<lparr> lines := [Inl (ErrorString ''i/o timeout'')] \<rparr>"

text \<open>
  What every call of \<open>sendGGAMessage\<close> keeps: a session that has a \<open>ReadWriter\<close> has its
  reader and its writer, and a session without one is not connected.
\<close>

definition wellFormed :: "rtkSerial \<Rightarrow> bool" where
  "wellFormed g = (case rw g of None \<Rightarrow> \<not> isConnected g | Some b \<Rightarrow> Reader b \<noteq> None \<and> Writer b \<noteq> None)"

section \<open>Properties of the facade\<close>

lemmas facade_defs = Position_def LinearVelocity_def delegate_def call_def LastError_Get_def
  GetLastPosition_def IsPositionNaN_def IsZeroPosition_def IsNaN_def NewPoint_def nanPosition_def

lemmas example_defs = cachedRTK_def latchedRTK_def testRTK_def testSensor_def zeroSensor_def
  nanSensor_def failingSensor_def NewLastError_def NewLastPosition_def LastError_Set_def
  SetLastPosition_def

text \<open>
  C1, as amended. When no error is latched and the sensor returns the fix (0, 0) at altitude 0
  with no error, \<open>Position\<close> returns that fix (0, 0) at altitude 0 with no error, whether or
  not a point is cached: only a NaN point is replaced on this path. The cache is left as it
  is, and \<open>LinearVelocity\<close> passes the sensor's value through.
\<close>

theorem Position_zero_fix:
  assumes "LastError_Get (err g) = None"
    and "sensorPosition (nmeamovementsensor g) = (Some (NewPoint (Fin 0) (Fin 0)), Fin 0, None)"
  shows "fst (Position g) = Inr (Some (NewPoint (Fin 0) (Fin 0)), Fin 0, None)
       \<and> lastposition (snd (Position g)) = lastposition g
       \<and> fst (LinearVelocity g) = sensorLinearVelocity (nmeamovementsensor g)"
  using assms by (simp add: facade_defs)

theorem Position_zero_fix_witness:
  "fst (Position (cachedRTK zeroSensor)) = Inr (Some (NewPoint (Fin 0) (Fin 0)), Fin 0, None)
   \<and> lastposition (snd (Position (cachedRTK zeroSensor))) = Some loc1
   \<and> fst (LinearVelocity (cachedRTK zeroSensor)) = (speed, None)"
proof -
  have a: "LastError_Get (err (cachedRTK zeroSensor)) = None"
    by (simp add: example_defs LastError_Get_def)
  have b: "sensorPosition (nmeamovementsensor (cachedRTK zeroSensor))
             = (Some (NewPoint (Fin 0) (Fin 0)), Fin 0, None)"
    by (simp add: example_defs)
  have c: "lastposition (cachedRTK zeroSensor) = Some loc1"
    by (simp add: example_defs)
  have d: "sensorLinearVelocity (nmeamovementsensor (cachedRTK zeroSensor)) = (speed, None)"
    by (simp add: example_defs)
  from Position_zero_fix [OF a b] show ?thesis unfolding c d .
qed

text \<open>
  The claim C1 as it is written fails: with the valid point (40.7, -73.98) in the cache and
  the fix (0, 0) from the sensor, \<open>Position\<close> does not return the cached point.
\<close>

theorem Position_zero_fix_counterexample:
  "LastError_Get (err (cachedRTK zeroSensor)) = None
   \<and> sensorPosition (nmeamovementsensor (cachedRTK zeroSensor))
       = (Some (NewPoint (Fin 0) (Fin 0)), Fin 0, None)
   \<and> GetLastPosition (lastposition (cachedRTK zeroSensor)) = Some loc1
   \<and> \<not> IsZeroPosition loc1 \<and> \<not> IsPositionNaN loc1
   \<and> fst (Position (cachedRTK zeroSensor)) \<noteq> Inr (Some loc1, Fin 0, None)"
  by (simp add: facade_defs example_defs loc1_def)

text \<open>
  C3. Once an error \<open>e\<close> is latched, each read operation of the facade answers without
  calling the sensor (the receiver, and with it the sensor's counter of calls, is returned
  unchanged) and returns \<open>e\<close> with the zero value of its quantity: the zero vector, the zero
  angular velocity, the zero orientation, heading 0, the zero properties, an empty accuracy
  map, and for \<open>Position\<close> the point (NaN, NaN) at altitude NaN. The exception is \<open>Position\<close>
  when a point is cached: it returns the cached point at altitude 0, with no error.
\<close>

theorem latched_error_short_circuits:
  assumes "LastError_Get (err g) = Some e"
  shows "LinearVelocity g = ((zeroVector, Some e), g)
       \<and> AngularVelocity g = ((zeroAngularVelocity, Some e), g)
       \<and> Orientation g = ((NewZeroOrientation, Some e), g)
       \<and> CompassHeading g = ((Fin 0, Some e), g)
       \<and> Properties g = ((Some zeroProperties, Some e), g)
       \<and> Accuracy g = ((Map.empty, Some e), g)
       \<and> Position g =
           (case GetLastPosition (lastposition g) of
              Some P \<Rightarrow> (Inr (Some P, Fin 0, None), g)
            | None \<Rightarrow> (Inr (Some (NewPoint NaN NaN), NaN, Some e), g))"
  using assms
  by (simp add: Position_def LinearVelocity_def AngularVelocity_def Orientation_def
      CompassHeading_def Properties_def Accuracy_def nanPosition_def split: option.splits)

theorem latched_error_short_circuits_witness:
  "LinearVelocity latchedRTK = ((zeroVector, Some casterDown), latchedRTK)
   \<and> AngularVelocity latchedRTK = ((zeroAngularVelocity, Some casterDown), latchedRTK)
   \<and> Orientation latchedRTK = ((NewZeroOrientation, Some casterDown), latchedRTK)
   \<and> CompassHeading latchedRTK = ((Fin 0, Some casterDown), latchedRTK)
   \<and> Properties latchedRTK = ((Some zeroProperties, Some casterDown), latchedRTK)
   \<and> Accuracy latchedRTK = ((Map.empty, Some casterDown), latchedRTK)
   \<and> Position latchedRTK = (Inr (Some loc1, Fin 0, None), latchedRTK)"
proof -
  have a: "LastError_Get (err latchedRTK) = Some casterDown"
    by (simp add: example_defs LastError_Get_def)
  have b: "GetLastPosition (lastposition latchedRTK) = Some loc1"
    by (simp add: example_defs GetLastPosition_def)
  from latched_error_short_circuits [OF a] show ?thesis unfolding b by simp
qed

text \<open>
  C4, as amended. When no error is latched and the sensor returns the fix (40.7, -73.98) at
  altitude 50.5 with no error, \<open>Position\<close> returns exactly that point and altitude with no
  error, and leaves the position cache as it was: \<open>Position\<close> never writes the cache.
\<close>

theorem Position_normal_fix:
  assumes "LastError_Get (err g) = None"
    and "sensorPosition (nmeamovementsensor g) = (Some loc1, Fin (505 / 10), None)"
  shows "fst (Position g) = Inr (Some loc1, Fin (505 / 10), None)
       \<and> lastposition (snd (Position g)) = lastposition g"
  using assms by (simp add: facade_defs loc1_def)

theorem Position_normal_fix_witness:
  "fst (Position testRTK) = Inr (Some loc1, Fin (505 / 10), None)
   \<and> lastposition (snd (Position testRTK)) = lastposition testRTK"
proof -
  have a: "LastError_Get (err testRTK) = None"
    by (simp add: example_defs LastError_Get_def)
  have b: "sensorPosition (nmeamovementsensor testRTK) = (Some loc1, Fin (505 / 10), None)"
    by (simp add: example_defs)
  from Position_normal_fix [OF a b] show ?thesis .
qed

text \<open>
  The claim C4 as it is written fails: after \<open>Position\<close> has returned the normal fix, the
  cache, empty before, does not hold that fix.
\<close>

theorem Position_normal_fix_counterexample:
  "LastError_Get (err testRTK) = None
   \<and> sensorPosition (nmeamovementsensor testRTK) = (Some loc1, Fin (505 / 10), None)
   \<and> fst (Position testRTK) = Inr (Some loc1, Fin (505 / 10), None)
   \<and> GetLastPosition (lastposition (snd (Position testRTK))) \<noteq> Some loc1"
  by (simp add: facade_defs example_defs loc1_def)

text \<open>
  C5. When no error is latched, the sensor returns the point (NaN, NaN) at altitude NaN with
  no error, and the point (40.7, -73.98) is cached, \<open>Position\<close> returns the cached point, the
  sensor's NaN altitude and no error.
\<close>

theorem Position_nan_fix:
  assumes "LastError_Get (err g) = None"
    and "sensorPosition (nmeamovementsensor g) = (Some (NewPoint NaN NaN), NaN, None)"
    and "GetLastPosition (lastposition g) = Some loc1"
  shows "fst (Position g) = Inr (Some loc1, NaN, None)"
  using assms by (simp add: facade_defs)

theorem Position_nan_fix_witness:
  "fst (Position (cachedRTK nanSensor)) = Inr (Some loc1, NaN, None)"
proof -
  have a: "LastError_Get (err (cachedRTK nanSensor)) = None"
    by (simp add: example_defs LastError_Get_def)
  have b: "sensorPosition (nmeamovementsensor (cachedRTK nanSensor))
             = (Some (NewPoint NaN NaN), NaN, None)"
    by (simp add: example_defs)
  have c: "GetLastPosition (lastposition (cachedRTK nanSensor)) = Some loc1"
    by (simp add: example_defs GetLastPosition_def)
  from Position_nan_fix [OF a b c] show ?thesis .
qed

text \<open>
  C9. When no error is latched and the sensor returns an error of its own together with a
  point that is (0, 0) or has NaN in either coordinate, and a point \<open>P\<close> is cached, \<open>Position\<close>
  returns \<open>P\<close> with the altitude that the sensor reported and no error: the sensor's error is
  dropped.
\<close>

theorem Position_sensor_error_suppressed:
  assumes "LastError_Get (err g) = None"
    and "sensorPosition (nmeamovementsensor g) = (Some p, alt, Some e)"
    and "(lat p = Fin 0 \<and> lng p = Fin 0) \<or> lat p = NaN \<or> lng p = NaN"
    and "GetLastPosition (lastposition g) = Some P"
  shows "fst (Position g) = Inr (Some P, alt, None)"
  using assms by (auto simp add: facade_defs)

theorem Position_sensor_error_suppressed_witness:
  "fst (Position (cachedRTK failingSensor)) = Inr (Some loc1, Fin 12, None)"
proof -
  have a: "LastError_Get (err (cachedRTK failingSensor)) = None"
    by (simp add: example_defs LastError_Get_def)
  have b: "sensorPosition (nmeamovementsensor (cachedRTK failingSensor))
             = (Some (NewPoint NaN (Fin 3)), Fin 12, Some noFix)"
    by (simp add: example_defs)
  have c: "(lat (NewPoint NaN (Fin 3)) = Fin 0 \<and> lng (NewPoint NaN (Fin 3)) = Fin 0)
             \<or> lat (NewPoint NaN (Fin 3)) = NaN \<or> lng (NewPoint NaN (Fin 3)) = NaN"
    by (simp add: NewPoint_def)
  have d: "GetLastPosition (lastposition (cachedRTK failingSensor)) = Some loc1"
    by (simp add: example_defs GetLastPosition_def)
  from Position_sensor_error_suppressed [OF a b c d] show ?thesis .
qed

section \<open>Properties of the connection to the caster\<close>

lemma connect_attempts_success:
  "\<exists>k. a \<le> k \<and> k < m \<and> (\<exists>c. f k = Inr c) \<Longrightarrow>
   \<exists>k c. a \<le> k \<and> k < m \<and> f k = Inr c \<and> connect_attempts f m a = Some c"
proof (induction f m a rule: connect_attempts.induct)
  case (1 f m a)
  from "1.prems" obtain k c where k: "a \<le> k" "k < m" "f k = Inr c" by blast
  then have am: "a < m" by simp
  show ?case
  proof (cases "f a")
    case (Inr c')
    with am show ?thesis
      by (subst connect_attempts.simps) auto
  next
    case (Inl e)
    with k have "a \<noteq> k" by auto
    with k have "\<exists>k. a + 1 \<le> k \<and> k < m \<and> (\<exists>c. f k = Inr c)" by (intro exI [of _ k]) auto
    from "1.IH" [OF am Inl this] obtain k' c' where
      "a + 1 \<le> k'" "k' < m" "f k' = Inr c'" "connect_attempts f m (a + 1) = Some c'" by blast
    with am Inl show ?thesis
      by (subst connect_attempts.simps) (auto intro!: exI [of _ k'])
  qed
qed

text \<open>
  C10. When the receiver's NTRIP record is set and some attempt within the budget builds the
  client, \<open>connect\<close> stores the client of such an attempt and returns what the \<open>LastError\<close>
  slot holds at that moment: nil when nothing is latched, and the latched error, with the
  client stored all the same, when one is.
\<close>

theorem connect_returns_LastError:
  assumes "ntripClient g = Some info"
    and "\<exists>k. 0 \<le> k \<and> k < maxAttempts \<and> (\<exists>c. NewClient casterAddr user pwd k = Inr c)"
  shows "\<exists>k c. 0 \<le> k \<and> k < maxAttempts \<and> NewClient casterAddr user pwd k = Inr c
           \<and> connect NewClient g casterAddr user pwd maxAttempts
               = (Inr (LastError_Get (err g)), g\<lparr> ntripClient := Some (info\<lparr> Client := Some c \<rparr>) \<rparr>)"
proof -
  from connect_attempts_success [OF assms(2)] obtain k c where
    "0 \<le> k" "k < maxAttempts" "NewClient casterAddr user pwd k = Inr c"
    "connect_attempts (NewClient casterAddr user pwd) maxAttempts 0 = Some c" by blast
  with assms(1) show ?thesis
    by (intro exI [of _ k] exI [of _ c]) (simp add: connect_def)
qed

lemma getStream_attempts_exhausted:
  "\<not> success \<Longrightarrow> a < m \<Longrightarrow> \<forall>k. a \<le> k \<and> k < m \<longrightarrow> \<not> done k \<and> snd (getS k) \<noteq> None \<Longrightarrow>
   getStream_attempts done getS m success a x = Some (getS (m - 1))"
proof (induction "done" getS m success a x rule: getStream_attempts.induct)
  case (1 "done" getS m success a x)
  from "1.prems" have nd: "\<not> done a" by auto
  from "1.prems" obtain y where y: "snd (getS a) = Some y" by auto
  have unfold: "getStream_attempts done getS m success a x
                  = getStream_attempts done getS m False (a + 1) (getS a)"
    using "1.prems"(1,2) nd y by (subst getStream_attempts.simps) simp
  show ?case
  proof (cases "a + 1 < m")
    case True
    from "1.prems" have rest: "\<forall>k. a + 1 \<le> k \<and> k < m \<longrightarrow> \<not> done k \<and> snd (getS k) \<noteq> None"
      by auto
    have "getStream_attempts done getS m (snd (getS a) = None) (a + 1) (getS a)
            = Some (getS (m - 1))"
      by (rule "1.IH") (use "1.prems"(1,2) nd y True rest in simp_all)
    with y unfold show ?thesis by simp
  next
    case False
    with "1.prems" have "a = m - 1" by simp
    moreover from False
    have "getStream_attempts done getS m False (a + 1) (getS a) = Some (getS a)"
      by (subst getStream_attempts.simps) simp
    ultimately show ?thesis using unfold by simp
  qed
qed

text \<open>
  C7. With a client at hand, when every attempt of \<open>getStream\<close> fails and no cancellation is
  seen, the loop ends with the error \<open>e\<close> of the last attempt. If the message of \<open>e\<close> contains
  "ICY", the stream field is assigned what the last attempt returned and \<open>getStream\<close> returns
  the content of the \<open>LastError\<close> slot instead of \<open>e\<close> (nil when nothing is latched); any other
  \<open>e\<close> is returned as the result, and the stream field is left as it was.
\<close>

theorem getStream_ICY_is_success:
  assumes "ntripClient g = Some info"
    and "Client info = Some client"
    and "\<not> cancelCtx g"
    and "0 < maxAttempts"
    and "\<forall>k. 0 \<le> k \<and> k < maxAttempts \<longrightarrow> \<not> done k \<and> snd (GetStream client mountPoint k) \<noteq> None"
    and "GetStream client mountPoint (maxAttempts - 1) = (rc, Some e)"
  shows "getStream done GetStream g mountPoint maxAttempts =
           (if Contains (Error e) ''ICY''
            then (Inr (LastError_Get (err g)), g\<lparr> ntripClient := Some (info\<lparr> Stream := rc \<rparr>) \<rparr>)
            else (Inr (Some e), g))"
proof -
  from assms(3,5) have "\<forall>k. 0 \<le> k \<and> k < maxAttempts \<longrightarrow>
      \<not> (cancelCtx g \<or> done k) \<and> snd (GetStream client mountPoint k) \<noteq> None" by simp
  from getStream_attempts_exhausted [OF _ assms(4) this, of False "(None, None)"] assms(6)
  have "getStream_attempts (\<lambda>k. cancelCtx g \<or> done k) (GetStream client mountPoint)
          maxAttempts False 0 (None, None) = Some (rc, Some e)" by simp
  with assms(1,2) show ?thesis by (simp add: getStream_def)
qed

lemma Contains_icy: "Contains (Error icy) ''ICY''"
  by (simp add: icy_def HasPrefix_def)

theorem getStream_ICY_is_success_witness:
  "getStream neverDone icyCaster connectedRTK ''NYC'' 2
     = (Inr None, connectedRTK\<lparr> ntripClient := Some (connectedInfo\<lparr> Stream := None \<rparr>) \<rparr>)"
proof -
  have a: "ntripClient connectedRTK = Some connectedInfo" by (simp add: connectedRTK_def)
  have a': "Client connectedInfo = Some 7" by (simp add: connectedInfo_def)
  have b: "\<not> cancelCtx connectedRTK" by (simp add: connectedRTK_def testRTK_def)
  have c: "(0::int) < 2" by simp
  have d: "\<forall>k. 0 \<le> k \<and> k < 2 \<longrightarrow>
             \<not> neverDone k \<and> snd (icyCaster 7 ''NYC'' k) \<noteq> None"
    by (simp add: neverDone_def icyCaster_def)
  have e: "icyCaster 7 ''NYC'' (2 - 1) = (None, Some icy)"
    by (simp add: icyCaster_def)
  have f: "LastError_Get (err connectedRTK) = None"
    by (simp add: connectedRTK_def testRTK_def LastError_Get_def NewLastError_def)
  from getStream_ICY_is_success
         [where g = connectedRTK and info = connectedInfo and client = 7 and maxAttempts = 2
            and ?done = neverDone and GetStream = icyCaster and mountPoint = "''NYC''"
            and rc = None and e = icy,
          OF a a' b c d e]
  show ?thesis
    unfolding f by (simp add: Contains_icy)
qed

theorem connect_returns_LastError_witness:
  "\<exists>k c. 0 \<le> k \<and> k < 10 \<and> flakyCaster ''http://fakeurl'' ''user'' ''pwd'' k = Inr c
     \<and> connect flakyCaster latchedRTK ''http://fakeurl'' ''user'' ''pwd'' 10
         = (Inr (Some casterDown), latchedRTK\<lparr> ntripClient := Some (testInfo\<lparr> Client := Some c \<rparr>) \<rparr>)"
proof -
  have a: "ntripClient latchedRTK = Some testInfo"
    by (simp add: latchedRTK_def cachedRTK_def testRTK_def)
  have b: "\<exists>k. 0 \<le> k \<and> k < 10 \<and> (\<exists>c. flakyCaster ''http://fakeurl'' ''user'' ''pwd'' k = Inr c)"
    by (intro exI [of _ 2]) (simp add: flakyCaster_def)
  have c: "LastError_Get (err latchedRTK) = Some casterDown"
    by (simp add: latchedRTK_def LastError_Get_def LastError_Set_def)
  from connect_returns_LastError
         [where g = latchedRTK and info = testInfo and maxAttempts = 10 and NewClient = flakyCaster
            and casterAddr = "''http://fakeurl''" and user = "''user''" and pwd = "''pwd''",
          OF a b]
  show ?thesis unfolding c .
qed

section \<open>Properties of the relay cycle\<close>









section \<open>Properties of Close\<close>

text \<open>
  C8, as amended. When the sensor, the correction writer (if one is open) and the stream (if
  one is open) close without error, \<open>Close\<close> cancels the context, waits until no worker is
  active, and returns the relay task's terminal error, or no error when that error is, or
  wraps, \<open>context.Canceled\<close>. When the sensor fails to close, \<open>Close\<close> cancels the context
  and returns the sensor's error at once: it does not wait for the relay task and does not
  look at \<open>LastError\<close>.
\<close>

theorem Close_returns_terminal_error:
  assumes "ntripClient g = Some info"
  shows "(sensorClose (nmeamovementsensor g) = None
          \<and> (correctionWriter g = None \<or> writerClose c = None)
          \<and> (Stream info = None \<or> streamClose c = None) \<longrightarrow>
            fst (Close c g) =
              Inr (case LastError_Get (terminal c g) of
                     None \<Rightarrow> None
                   | Some e \<Rightarrow> if errors_Is_Canceled e then None else Some e)
          \<and> cancelCtx (snd (Close c g))
          \<and> activeBackgroundWorkers (snd (Close c g)) = 0
          \<and> err (snd (Close c g)) = terminal c g)
       \<and> (sensorClose (nmeamovementsensor g) = Some e \<longrightarrow>
            fst (Close c g) = Inr (Some e)
          \<and> cancelCtx (snd (Close c g))
          \<and> activeBackgroundWorkers (snd (Close c g)) = activeBackgroundWorkers g
          \<and> err (snd (Close c g)) = err g)"
proof -
  have ok: "fst (Close c g) =
              Inr (case LastError_Get (terminal c g) of
                     None \<Rightarrow> None
                   | Some e \<Rightarrow> if errors_Is_Canceled e then None else Some e)
          \<and> cancelCtx (snd (Close c g))
          \<and> activeBackgroundWorkers (snd (Close c g)) = 0
          \<and> err (snd (Close c g)) = terminal c g"
    if "sensorClose (nmeamovementsensor g) = None"
      "correctionWriter g = None \<or> writerClose c = None"
      "Stream info = None \<or> streamClose c = None"
  proof -
    have w: "(case correctionWriter g of Some w \<Rightarrow> writerClose c | None \<Rightarrow> None) = None"
      using that(2) by (auto split: option.splits)
    have s: "(case Stream info of Some s \<Rightarrow> streamClose c | None \<Rightarrow> None) = None"
      using that(3) by (auto split: option.splits)
    show ?thesis
      using assms that(1) w s
      by (simp add: Close_def delegate_def call_def Wait_def terminal_def LastError_Get_def
          Let_def split: option.splits)
  qed
  have bad: "fst (Close c g) = Inr (Some e)
          \<and> cancelCtx (snd (Close c g))
          \<and> activeBackgroundWorkers (snd (Close c g)) = activeBackgroundWorkers g
          \<and> err (snd (Close c g)) = err g"
    if "sensorClose (nmeamovementsensor g) = Some e"
    using that by (simp add: Close_def delegate_def call_def)
  show ?thesis
    by (intro conjI impI; (elim conjE)?; (rule ok [THEN conjunct1] ok [THEN conjunct2, THEN conjunct1]
          ok [THEN conjunct2, THEN conjunct2, THEN conjunct1] ok [THEN conjunct2, THEN conjunct2, THEN conjunct2]
          bad [THEN conjunct1] bad [THEN conjunct2, THEN conjunct1]
          bad [THEN conjunct2, THEN conjunct2, THEN conjunct1] bad [THEN conjunct2, THEN conjunct2, THEN conjunct2];
          assumption))
qed

theorem Close_returns_terminal_error_witness:
  "fst (Close shutdown testRTK) = Inr None \<and> fst (Close outage testRTK) = Inr (Some casterDown)"
proof -
  have info: "ntripClient testRTK = Some testInfo" by (simp add: testRTK_def)
  have pre: "sensorClose (nmeamovementsensor testRTK) = None
          \<and> (correctionWriter testRTK = None \<or> writerClose c = None)
          \<and> (Stream testInfo = None \<or> streamClose c = None)" for c :: closing
    by (simp add: testRTK_def testSensor_def testInfo_def)
  have t1: "LastError_Get (terminal shutdown testRTK) = Some ContextCanceled"
    by (simp add: terminal_def shutdown_def testRTK_def LastError_Get_def LastError_Set_def)
  have t2: "LastError_Get (terminal outage testRTK) = Some casterDown"
    by (simp add: terminal_def outage_def testRTK_def LastError_Get_def LastError_Set_def)
  have "fst (Close shutdown testRTK) = Inr None"
    using Close_returns_terminal_error [OF info, of shutdown, THEN conjunct1, rule_format, OF pre, THEN conjunct1]
    by (simp add: t1)
  moreover have "fst (Close outage testRTK) = Inr (Some casterDown)"
    using Close_returns_terminal_error [OF info, of outage, THEN conjunct1, rule_format, OF pre, THEN conjunct1]
    by (simp add: t2 casterDown_def)
  ultimately show ?thesis by simp
qed

text \<open>
  The claim C8 as it is written fails: with a sensor that fails to close, \<open>Close\<close> returns
  the sensor's error although the relay task ends on the cancellation, and the relay task,
  active before the call, is still counted as active when \<open>Close\<close> returns.
\<close>

theorem Close_returns_terminal_error_counterexample:
  "activeBackgroundWorkers stuckRTK = 1
   \<and> LastError_Get (terminal shutdown stuckRTK) = Some ContextCanceled
   \<and> fst (Close shutdown stuckRTK) = Inr (Some closeFailed)
   \<and> activeBackgroundWorkers (snd (Close shutdown stuckRTK)) = 1"
  by (simp add: stuckRTK_def testRTK_def testSensor_def shutdown_def terminal_def Close_def
      delegate_def call_def LastError_Get_def LastError_Set_def)


section \<open>Properties of the virtual-base session\<close>

lemma connect_wellFormed:
  "connectToVirtualBase c g = (Returns r, g') \<Longrightarrow> wellFormed (g'\<lparr> rw := r \<rparr>)"
  by (auto simp add: connectToVirtualBase_def wellFormed_def split: if_splits sum.splits option.splits)

lemma awaitStatus_wellFormed:
  "wellFormed g \<Longrightarrow> awaitStatus ls g = (out, g') \<Longrightarrow>
   wellFormed g' \<and> (out = Returns None \<longrightarrow> isConnected g' \<and> handshakeObserved g')"
proof (induction ls g arbitrary: out g' rule: awaitStatus.induct)
  case (1 g)
  then show ?case
    by (auto simp add: wellFormed_def split: option.splits if_splits)
next
  case (2 e rest g)
  then show ?case
    by (auto simp add: wellFormed_def split: option.splits if_splits)
next
  case (3 line rest g)
  show ?case
  proof (cases "rw g")
    case None
    with "3.prems" show ?thesis by (auto simp add: wellFormed_def)
  next
    case (Some b)
    with "3.prems"(1) have b: "rw g = Some b" "Reader b \<noteq> None" "Writer b \<noteq> None"
      by (auto simp add: wellFormed_def)
    let ?g1 = "g\<lparr> rw := Some (b\<lparr> received := received b @ [line] \<rparr>) \<rparr>"
    have wf1: "wellFormed ?g1" using b by (simp add: wellFormed_def)
    show ?thesis
    proof (cases "HasPrefix line ''HTTP/1.1 ''")
      case True
      with "3.prems"(2) b show ?thesis
        by (auto simp add: wellFormed_def handshakeObserved_def Let_def split: if_splits)
    next
      case False
      with "3.prems"(2) b have "awaitStatus rest ?g1 = (out, g')"
        by (auto simp add: Let_def)
      with "3.IH" [OF b(1) _ refl False wf1] b show ?thesis by auto
    qed
  qed
qed

lemma writeGGA_state:
  "writeGGA c g = (out, g') \<Longrightarrow> g' = g \<and> (out = Returns (Some b, None) \<longrightarrow> rw g = Some b)"
  by (auto simp add: writeGGA_def split: outcome.splits sum.splits option.splits if_splits)

lemma sendGGAMessage_wellFormed:
  assumes "wellFormed g" and "sendGGAMessage c g = (out, g')"
  shows "wellFormed g' \<and> (out = Returns (Some b, None) \<longrightarrow>
           isConnected g' \<and> readerWriterSet g' \<and> handshakeObserved g')"
proof -
  define start where "start =
      (if \<not> isConnected g
       then (case connectToVirtualBase c g of
               (Returns r, g') \<Rightarrow> (Returns (), g'\<lparr> rw := r \<rparr>)
             | (Panics p, g') \<Rightarrow> (Panics p, g')
             | (Blocks, g') \<Rightarrow> (Blocks, g'))
       else (Returns (), g))"
  obtain o1 g1 where s: "start = (o1, g1)" by (cases start)
  have wf1: "wellFormed g1"
  proof (cases "isConnected g")
    case True
    with s assms(1) show ?thesis by (simp add: start_def)
  next
    case False
    obtain o0 g0 where c0: "connectToVirtualBase c g = (o0, g0)" by (cases "connectToVirtualBase c g")
    show ?thesis
    proof (cases o0)
      case (Returns r)
      with c0 s False connect_wellFormed [of c g r g0] show ?thesis
        by (simp add: start_def)
    next
      case (Panics p)
      with c0 have "g0 = g" by (auto simp add: connectToVirtualBase_def split: if_splits sum.splits option.splits)
      with Panics c0 s False assms(1) show ?thesis by (simp add: start_def)
    next
      case Blocks
      with c0 have "g0 = g" by (auto simp add: connectToVirtualBase_def split: if_splits sum.splits option.splits)
      with Blocks c0 s False assms(1) show ?thesis by (simp add: start_def)
    qed
  qed
  from assms(2) s have send: "(case (o1, g1) of
        (Panics p, g1) \<Rightarrow> (Panics p, g1)
      | (Blocks, g1) \<Rightarrow> (Blocks, g1)
      | (Returns u, g1) \<Rightarrow>
          (case awaitStatus (lines c) g1 of
             (Panics p, g2) \<Rightarrow> (Panics p, g2)
           | (Blocks, g2) \<Rightarrow> (Blocks, g2)
           | (Returns (Some r), g2) \<Rightarrow> (Returns r, g2)
           | (Returns None, g2) \<Rightarrow> writeGGA c g2)) = (out, g')"
    unfolding sendGGAMessage_def start_def [symmetric] by simp
  show ?thesis
  proof (cases o1)
    case (Returns u)
    obtain o2 g2 where a: "awaitStatus (lines c) g1 = (o2, g2)" by (cases "awaitStatus (lines c) g1")
    from awaitStatus_wellFormed [OF wf1 a]
    have wf2: "wellFormed g2" and hs: "o2 = Returns None \<longrightarrow> isConnected g2 \<and> handshakeObserved g2"
      by simp_all
    show ?thesis
    proof (cases "o2 = Returns None")
      case True
      with send Returns a have w: "writeGGA c g2 = (out, g')" by simp
      from writeGGA_state [OF w, of b] have "g' = g2" "out = Returns (Some b, None) \<longrightarrow> rw g2 = Some b"
        by simp_all
      with wf2 hs True show ?thesis
        by (auto simp add: wellFormed_def readerWriterSet_def)
    next
      case False
      with send Returns a have "g' = g2 \<and> (\<forall>b. out \<noteq> Returns (Some b, None) \<or> (\<exists>r. o2 = Returns (Some r)))"
        by (auto split: outcome.splits option.splits)
      moreover have "out \<noteq> Returns (Some b, None)"
      proof
        assume "out = Returns (Some b, None)"
        with send Returns a False obtain r where r: "o2 = Returns (Some r)" "r = (Some b, None)"
          by (auto split: outcome.splits option.splits)
        with a have "awaitStatus (lines c) g1 = (Returns (Some (Some b, None)), g2)" by simp
        moreover have "awaitStatus ls h \<noteq> (Returns (Some (Some b, None)), h')" for ls h h'
          by (induction ls h rule: awaitStatus.induct)
             (auto simp add: Let_def split: option.splits if_splits)
        ultimately show False by simp
      qed
      ultimately show ?thesis using wf2 by simp
    qed
  next
    case (Panics p)
    with send wf1 show ?thesis by auto
  next
    case Blocks
    with send wf1 show ?thesis by auto
  qed
qed

lemma sessions_wellFormed: "wellFormed g \<Longrightarrow> wellFormed (sessions cs g)"
proof (induction cs arbitrary: g)
  case Nil
  then show ?case by simp
next
  case (Cons c cs)
  obtain out g' where s: "sendGGAMessage c g = (out, g')" by (cases "sendGGAMessage c g")
  from sendGGAMessage_wellFormed [OF Cons.prems s] have "wellFormed g'" by simp
  with Cons.IH s show ?case by simp
qed

text \<open>
  C6, as amended. In every state that a new session reaches by calls of \<open>sendGGAMessage\<close>,
  \<open>isConnected\<close> implies that the reader and the writer are both non-nil. That a status line
  with "200 OK" has been read on the connection holds when \<open>sendGGAMessage\<close> returns the
  \<open>ReadWriter\<close> with no error (then \<open>isConnected\<close> holds too); \<open>isConnected\<close> alone does not
  imply it, since \<open>connectToVirtualBase\<close> sets the flag as soon as the request is sent.
\<close>

theorem connected_has_reader_and_writer:
  assumes "\<not> isConnected g0" and "rw g0 = None"
  shows "(isConnected (sessions cs g0) \<longrightarrow> readerWriterSet (sessions cs g0))
       \<and> (sendGGAMessage c (sessions cs g0) = (Returns (Some b, None), g') \<longrightarrow>
            isConnected g' \<and> readerWriterSet g' \<and> handshakeObserved g')"
proof -
  from assms have "wellFormed g0" by (simp add: wellFormed_def)
  then have wf: "wellFormed (sessions cs g0)" by (rule sessions_wellFormed)
  then have "isConnected (sessions cs g0) \<longrightarrow> readerWriterSet (sessions cs g0)"
    by (auto simp add: wellFormed_def readerWriterSet_def split: option.splits)
  moreover have "isConnected g' \<and> readerWriterSet g' \<and> handshakeObserved g'"
    if "sendGGAMessage c (sessions cs g0) = (Returns (Some b, None), g')"
    using sendGGAMessage_wellFormed [OF wf that, of b] by simp
  ultimately show ?thesis by blast
qed

lemma accepted_run:
  "sendGGAMessage accepted newSerial =
     (Returns (Some \<lparr> Reader = Some 3, Writer = Some 3, received = [''HTTP/1.1 200 OK''] \<rparr>, None),
      \<lparr> isConnected = True,
        rw = Some \<lparr> Reader = Some 3, Writer = Some 3, received = [''HTTP/1.1 200 OK''] \<rparr>,
        urlMutex = False, correctionWriter_serial = Some 1 \<rparr>)"
  by (simp add: sendGGAMessage_def connectToVirtualBase_def writeGGA_def getGGAMessage_def
      containsGGAMessage_def accepted_def newSerial_def HasPrefix_def)

theorem connected_has_reader_and_writer_witness:
  "isConnected (snd (sendGGAMessage accepted newSerial))
   \<and> readerWriterSet (snd (sendGGAMessage accepted newSerial))
   \<and> handshakeObserved (snd (sendGGAMessage accepted newSerial))"
proof -
  have a: "\<not> isConnected newSerial" "rw newSerial = None" by (simp_all add: newSerial_def)
  have b: "sendGGAMessage accepted (sessions [] newSerial)
             = (Returns (fst (case fst (sendGGAMessage accepted newSerial) of Returns r \<Rightarrow> r), None),
                snd (sendGGAMessage accepted newSerial))"
    by (simp add: accepted_run)
  have c: "fst (case fst (sendGGAMessage accepted newSerial) of Returns r \<Rightarrow> r)
             = Some \<lparr> Reader = Some 3, Writer = Some 3, received = [''HTTP/1.1 200 OK''] \<rparr>"
    by (simp add: accepted_run)
  from connected_has_reader_and_writer [OF a, of "[]" accepted, THEN conjunct2, rule_format, OF b [unfolded c]]
  show ?thesis .
qed

text \<open>
  The claim C6 as it is written fails: after a call of \<open>sendGGAMessage\<close> in which the request
  is sent and the read of the answer fails with an error other than \<open>io.EOF\<close>, the session is
  connected and no status line has been read; and right after \<open>connectToVirtualBase\<close> the
  session is connected while its \<open>ReadWriter\<close> is still nil.
\<close>

theorem connected_has_reader_and_writer_counterexample:
  "\<not> isConnected newSerial \<and> rw newSerial = None
   \<and> isConnected (sessions [timedOut] newSerial)
   \<and> \<not> handshakeObserved (sessions [timedOut] newSerial)
   \<and> isConnected (snd (connectToVirtualBase timedOut newSerial))
   \<and> rw (snd (connectToVirtualBase timedOut newSerial)) = None"
  by (simp add: sendGGAMessage_def connectToVirtualBase_def timedOut_def accepted_def newSerial_def
      handshakeObserved_def)

end
